theory Spec2Isabelle
  imports Complex_Main "HOL-Library.AList" "HOL-Library.Word"
begin

section \<open>JavaScript strings\<close>

text \<open>
  A JavaScript string is a sequence of UTF-16 code units. The bridge handles text with
  code units outside Latin-1 (the typing cursor U+258D, zero-width glyphs, accented UI
  labels), so a string is a list of code-unit values and \<open>length\<close> is the \<open>.length\<close>
  of the source. \<open>lit\<close> embeds an ASCII literal.
\<close>

type_synonym jstring = "nat list"

definition lit :: "string \<Rightarrow> jstring" where
  "lit s = map of_char s"

text \<open>
  The white space of \<open>String.prototype.trim\<close> and of the regular-expression class
  \<open>\s\<close>: TAB, LF, VT, FF, CR, SPACE, NBSP, U+1680, U+2000 to U+200A, U+2028, U+2029,
  U+202F, U+205F, U+3000 and U+FEFF.
\<close>

definition isWhiteSpace :: "nat \<Rightarrow> bool" where
  "isWhiteSpace c \<longleftrightarrow>
     c = 9 \<or> c = 10 \<or> c = 11 \<or> c = 12 \<or> c = 13 \<or> c = 32 \<or> c = 160 \<or> c = 5760
     \<or> (8192 \<le> c \<and> c \<le> 8202) \<or> c = 8232 \<or> c = 8233 \<or> c = 8239 \<or> c = 8287
     \<or> c = 12288 \<or> c = 65279"

definition trim :: "jstring \<Rightarrow> jstring" where
  "trim s = rev (dropWhile isWhiteSpace (rev (dropWhile isWhiteSpace s)))"

text \<open>
  \<open>String.prototype.toLowerCase\<close> follows the Unicode case tables, which are not part
  of the repository. Every function that lower-cases takes the conversion as its first
  argument \<open>lc\<close>. \<open>toLowerCaseAscii\<close> is the conversion on Basic Latin; it agrees with
  the built-in on every string without capital letters outside \<open>A-Z\<close> and instantiates
  \<open>lc\<close> at concrete inputs.
\<close>

definition toLowerCaseAscii :: "jstring \<Rightarrow> jstring" where
  "toLowerCaseAscii s = map (\<lambda>c. if 65 \<le> c \<and> c \<le> 90 then c + 32 else c) s"

section \<open>Session slots and conversation ids (session/store.ts)\<close>

text \<open>
  \<open>slot?.trim().toLowerCase()\<close>; an undefined or empty result is the slot \<open>default\<close>.
\<close>

definition normalizeSessionSlot :: "(jstring \<Rightarrow> jstring) \<Rightarrow> jstring option \<Rightarrow> jstring" where
  "normalizeSessionSlot lc slot =
     (case slot of
        None \<Rightarrow> lit ''default''
      | Some s \<Rightarrow> (let normalized = lc (trim s) in
                   if normalized = [] then lit ''default'' else normalized))"

definition normalizeConversationId :: "jstring option \<Rightarrow> jstring option" where
  "normalizeConversationId conversationId =
     (case conversationId of
        None \<Rightarrow> None
      | Some s \<Rightarrow> (let normalized = trim s in
                   if normalized = [] then None else Some normalized))"

section \<open>Routing resolution (http/openaiRoutes.ts)\<close>

datatype SessionBindingMode = Off | Sticky | Explicit



record ErrorResponseShape =
  esMessage :: jstring
  esCode :: jstring
  esStatus :: nat
  esRetryAfterSec :: "int option"

text \<open>
  The fields of \<open>BridgeConfig\<close> that the routing code and the response headers read.
\<close>

record BridgeConfig =
  cfgVersion :: jstring
  cfgResetStrict :: bool
  cfgSessionBindingMode :: SessionBindingMode
  cfgSessionDefaultSlot :: jstring
  cfgSessionBindingStrictOpen :: bool


definition resolveHeaderSessionSlot :: "SessionBindingMode \<Rightarrow> jstring \<Rightarrow> jstring" where
  "resolveHeaderSessionSlot mode sessionSlot = (if mode = Off then [] else sessionSlot)"

section \<open>Errors and their wire mapping (errors.ts, http/openaiRoutes.ts)\<close>

datatype BridgeErrorCode =
    app_not_running | accessibility_denied | ui_element_not_found | ui_reset_failed
  | ui_error | usage_cap | rate_limited_by_chatgpt | captcha | network_error
  | auth_required | conversation_not_found | file_context_invalid
  | file_context_access_denied | file_context_not_found | file_context_unsupported
  | prompt_too_large | queue_full | timeout | unknown

text \<open>The string literal that each member of the union \<open>BridgeErrorCode\<close> is.\<close>

fun codeName :: "BridgeErrorCode \<Rightarrow> jstring" where
  "codeName app_not_running = lit ''app_not_running''"
| "codeName accessibility_denied = lit ''accessibility_denied''"
| "codeName ui_element_not_found = lit ''ui_element_not_found''"
| "codeName ui_reset_failed = lit ''ui_reset_failed''"
| "codeName ui_error = lit ''ui_error''"
| "codeName usage_cap = lit ''usage_cap''"
| "codeName rate_limited_by_chatgpt = lit ''rate_limited_by_chatgpt''"
| "codeName captcha = lit ''captcha''"
| "codeName network_error = lit ''network_error''"
| "codeName auth_required = lit ''auth_required''"
| "codeName conversation_not_found = lit ''conversation_not_found''"
| "codeName file_context_invalid = lit ''file_context_invalid''"
| "codeName file_context_access_denied = lit ''file_context_access_denied''"
| "codeName file_context_not_found = lit ''file_context_not_found''"
| "codeName file_context_unsupported = lit ''file_context_unsupported''"
| "codeName prompt_too_large = lit ''prompt_too_large''"
| "codeName queue_full = lit ''queue_full''"
| "codeName timeout = lit ''timeout''"
| "codeName unknown = lit ''unknown''"

text \<open>A value of the \<open>details\<close> record of a \<open>BridgeError\<close>.\<close>

datatype DetailValue = DStr jstring | DNum int | DBool bool

record BridgeError =
  beCode :: BridgeErrorCode
  beMessage :: jstring
  beDetails :: "(jstring \<times> DetailValue) list"
  beRetryAfterSec :: "int option"

definition mapBridgeError :: "BridgeError \<Rightarrow> ErrorResponseShape" where
  "mapBridgeError e =
     (let plain = (\<lambda>st. \<lparr>esMessage = beMessage e, esCode = codeName (beCode e),
                             esStatus = st, esRetryAfterSec = None\<rparr>);
          hinted = (\<lambda>st d. \<lparr>esMessage = beMessage e, esCode = codeName (beCode e),
                               esStatus = st,
                               esRetryAfterSec =
                                 Some (case beRetryAfterSec e of None \<Rightarrow> d | Some r \<Rightarrow> r)\<rparr>)
      in case beCode e of
        app_not_running \<Rightarrow> plain 503
      | accessibility_denied \<Rightarrow> plain 503
      | queue_full \<Rightarrow> hinted 429 10
      | prompt_too_large \<Rightarrow> plain 400
      | conversation_not_found \<Rightarrow> plain 404
      | file_context_not_found \<Rightarrow> plain 404
      | file_context_access_denied \<Rightarrow> plain 403
      | file_context_invalid \<Rightarrow> plain 400
      | file_context_unsupported \<Rightarrow> plain 400
      | usage_cap \<Rightarrow> hinted 429 60
      | rate_limited_by_chatgpt \<Rightarrow> hinted 429 60
      | captcha \<Rightarrow> plain 403
      | auth_required \<Rightarrow> plain 403
      | network_error \<Rightarrow> plain 502
      | ui_error \<Rightarrow> plain 502
      | ui_reset_failed \<Rightarrow> plain 502
      | ui_element_not_found \<Rightarrow> plain 428
      | timeout \<Rightarrow> plain 504
      | unknown \<Rightarrow> plain 500)"

text \<open>\<open>error.details?.contextReset\<close>, kept only when it is the number 0 or 1.\<close>

definition extractContextReset :: "BridgeError \<Rightarrow> nat" where
  "extractContextReset e =
     (case map_of (beDetails e) (lit ''contextReset'') of
        Some (DNum v) \<Rightarrow> (if v = 1 then 1 else 0)
      | _ \<Rightarrow> 0)"

subsection \<open>Requests, responses and the bridge headers\<close>

text \<open>
  A request as the handlers read it: method, path (relative to the router) and the
  \<open>x-request-id\<close> header. A response: status, headers (set by name), the JSON error
  payload and \<open>res.locals.rid\<close>.
\<close>

record Request =
  reqMethod :: jstring
  reqPath :: jstring
  reqRequestIdHeader :: "jstring option"

record OpenAiErrorPayload =
  pMessage :: jstring
  pType :: jstring
  pCode :: jstring

record Response =
  resStatus :: "nat option"
  resHeaders :: "jstring \<rightharpoonup> jstring"
  resPayload :: "OpenAiErrorPayload option"
  resLocalsRid :: "jstring option"

record HeaderContext =
  hcSessionSlot :: "jstring option"
  hcConversationId :: "jstring option"

text \<open>
  What the handlers read of their dependencies when they answer: the configuration and
  \<open>queue.getDepth()\<close>.
\<close>

record Deps =
  dConfig :: BridgeConfig
  dQueueDepth :: nat

text \<open>\<open>String(n)\<close> for an integer, in decimal.\<close>

fun showNat :: "nat \<Rightarrow> jstring" where
  "showNat n = (if n < 10 then [48 + n] else showNat (n div 10) @ [48 + n mod 10])"

declare showNat.simps [simp del]

definition showInt :: "int \<Rightarrow> jstring" where
  "showInt i = (if i < 0 then 45 # showNat (nat (- i)) else showNat (nat i))"

definition setHeader :: "jstring \<Rightarrow> jstring \<Rightarrow> Response \<Rightarrow> Response" where
  "setHeader name v res = res\<lparr>resHeaders := (resHeaders res)(name \<mapsto> v)\<rparr>"

text \<open>
  \<open>getRequestId\<close>: the id cached in \<open>res.locals\<close>, else the trimmed header when it is
  not blank, else \<open>nanoid()\<close>, whose result is the argument \<open>fresh\<close>. The id is cached.
\<close>

definition getRequestId :: "jstring \<Rightarrow> Request \<Rightarrow> Response \<Rightarrow> jstring \<times> Response" where
  "getRequestId fresh req res =
     (case (case resLocalsRid res of Some r \<Rightarrow> if r = [] then None else Some r | None \<Rightarrow> None) of
        Some r \<Rightarrow> (r, res)
      | None \<Rightarrow>
          (let rid = (case reqRequestIdHeader req of
                        Some h \<Rightarrow> if length (trim h) > 0 then trim h else fresh
                      | None \<Rightarrow> fresh)
           in (rid, res\<lparr>resLocalsRid := Some rid\<rparr>)))"

definition setBridgeHeaders ::
  "jstring \<Rightarrow> Deps \<Rightarrow> Request \<Rightarrow> Response \<Rightarrow> nat \<Rightarrow> HeaderContext \<Rightarrow> Response" where
  "setBridgeHeaders fresh deps req res contextReset headerContext =
     (let res1 = setHeader (lit ''x-bridge-version'') (cfgVersion (dConfig deps)) res;
          (rid, res2) = getRequestId fresh req res1;
          res3 = setHeader (lit ''x-bridge-request-id'') rid res2;
          res4 = setHeader (lit ''x-bridge-queue-depth'') (showNat (dQueueDepth deps)) res3;
          res5 = setHeader (lit ''x-bridge-context-reset'') (showNat contextReset) res4;
          res6 = setHeader (lit ''x-bridge-reset-strict'')
                   (if cfgResetStrict (dConfig deps) then lit ''1'' else lit ''0'') res5;
          res7 = setHeader (lit ''x-bridge-session-slot'')
                   (case hcSessionSlot headerContext of None \<Rightarrow> [] | Some s \<Rightarrow> s) res6
      in setHeader (lit ''x-bridge-conversation-id'')
           (case hcConversationId headerContext of None \<Rightarrow> [] | Some c \<Rightarrow> c) res7)"

definition buildOpenAiErrorPayload :: "ErrorResponseShape \<Rightarrow> OpenAiErrorPayload" where
  "buildOpenAiErrorPayload error =
     \<lparr>pMessage = esMessage error, pType = lit ''bridge_error'', pCode = esCode error\<rparr>"

text \<open>
  \<open>req.method.toUpperCase()\<close>: a method is an HTTP token, so the conversion is the one
  on Basic Latin.
\<close>

definition toUpperCaseAscii :: "jstring \<Rightarrow> jstring" where
  "toUpperCaseAscii s = map (\<lambda>c. if 97 \<le> c \<and> c \<le> 122 then c - 32 else c) s"

text \<open>
  The error that \<open>SingleFlightQueue.enqueue\<close> throws when \<open>getDepth() >= maxSize\<close>.
\<close>

definition queueFullError :: "int \<Rightarrow> BridgeError" where
  "queueFullError maxSize =
     \<lparr>beCode = queue_full, beMessage = lit ''Queue is full'',
      beDetails = [(lit ''maxSize'', DNum maxSize)], beRetryAfterSec = Some 10\<rparr>"

definition shouldDisableClientRetry :: "Request \<Rightarrow> bool" where
  "shouldDisableClientRetry req \<longleftrightarrow>
     toUpperCaseAscii (reqMethod req) = lit ''POST'' \<and> reqPath req = lit ''/v1/chat/completions''"

definition sendOpenAiError ::
  "jstring \<Rightarrow> Deps \<Rightarrow> Request \<Rightarrow> Response \<Rightarrow> ErrorResponseShape \<Rightarrow> nat \<Rightarrow> HeaderContext
     \<Rightarrow> Response" where
  "sendOpenAiError fresh deps req res error contextReset headerContext =
     (let res1 = setBridgeHeaders fresh deps req res contextReset headerContext;
          res2 = (if shouldDisableClientRetry req
                  then setHeader (lit ''x-should-retry'') (lit ''false'') res1 else res1);
          res3 = (case esRetryAfterSec error of
                    Some r \<Rightarrow> setHeader (lit ''Retry-After'') (showInt r) res2
                  | None \<Rightarrow> res2)
      in res3\<lparr>resStatus := Some (esStatus error),
               resPayload := Some (buildOpenAiErrorPayload error)\<rparr>)"

text \<open>
  The \<open>catch\<close> block of \<open>GET /v1/bridge/conversations\<close> and of
  \<open>POST /v1/chat/completions\<close>: map the error, read its context reset, answer with
  \<open>sendOpenAiError\<close> under the handler's header context.
\<close>

definition conversationsHeaderContext :: "Deps \<Rightarrow> HeaderContext" where
  "conversationsHeaderContext deps =
     \<lparr>hcSessionSlot =
        Some (resolveHeaderSessionSlot (cfgSessionBindingMode (dConfig deps))
                (cfgSessionDefaultSlot (dConfig deps))),
      hcConversationId = Some []\<rparr>"

definition conversationsCatch :: "jstring \<Rightarrow> Deps \<Rightarrow> Request \<Rightarrow> Response \<Rightarrow> BridgeError \<Rightarrow> Response" where
  "conversationsCatch fresh deps req res bridgeError =
     sendOpenAiError fresh deps req res (mapBridgeError bridgeError)
       (extractContextReset bridgeError) (conversationsHeaderContext deps)"

definition completionsCatch ::
  "jstring \<Rightarrow> Deps \<Rightarrow> Request \<Rightarrow> Response \<Rightarrow> HeaderContext \<Rightarrow> BridgeError \<Rightarrow> Response" where
  "completionsCatch fresh deps req res headerContext bridgeError =
     sendOpenAiError fresh deps req res (mapBridgeError bridgeError)
       (extractContextReset bridgeError) headerContext"



section \<open>The marker (ui/extract.ts)\<close>





section \<open>Regular expressions of the extractor\<close>

text \<open>
  The regular expressions of the sources are deterministic: after a greedy repetition the
  pattern continues with a character outside the repeated class, and the alternatives of a
  choice exclude each other, so a match never depends on backtracking. A pattern is a
  matcher that returns what is left of the input after the match at its start, or
  \<open>None\<close>. \<open>regexCanon\<close> is the canonicalization of the \<open>i\<close> flag on the characters
  that can match a letter of these patterns: \<open>a-z\<close> and the letter U+00E9.
\<close>

type_synonym matcher = "jstring \<Rightarrow> jstring option"

definition regexCanon :: "nat \<Rightarrow> nat" where
  "regexCanon c = (if 97 \<le> c \<and> c \<le> 122 then c - 32 else if c = 233 then 201 else c)"

definition mLit :: "jstring \<Rightarrow> matcher" where
  "mLit p s = (if take (length p) s = p then Some (drop (length p) s) else None)"

definition mLitCI :: "jstring \<Rightarrow> matcher" where
  "mLitCI p s =
     (if map regexCanon (take (length p) s) = map regexCanon p
      then Some (drop (length p) s) else None)"

definition mMany :: "(nat \<Rightarrow> bool) \<Rightarrow> matcher" where
  "mMany P s = Some (dropWhile P s)"

definition mMany1 :: "(nat \<Rightarrow> bool) \<Rightarrow> matcher" where
  "mMany1 P s = (if takeWhile P s = [] then None else Some (dropWhile P s))"

definition mOpt :: "matcher \<Rightarrow> matcher" where
  "mOpt m s = (case m s of Some r \<Rightarrow> Some r | None \<Rightarrow> Some s)"

definition mAlt :: "matcher \<Rightarrow> matcher \<Rightarrow> matcher" where
  "mAlt m1 m2 s = (case m1 s of Some r \<Rightarrow> Some r | None \<Rightarrow> m2 s)"

definition mThen :: "matcher \<Rightarrow> matcher \<Rightarrow> matcher" where
  "mThen m1 m2 s = (case m1 s of None \<Rightarrow> None | Some r \<Rightarrow> m2 r)"

definition mSeq :: "matcher list \<Rightarrow> matcher" where
  "mSeq ms = foldr mThen ms Some"

definition mEnd :: matcher where
  "mEnd s = (if s = [] then Some [] else None)"

definition isDigit :: "nat \<Rightarrow> bool" where
  "isDigit c \<longleftrightarrow> 48 \<le> c \<and> c \<le> 57"

definition isWordUnit :: "nat \<Rightarrow> bool" where
  "isWordUnit c \<longleftrightarrow> (48 \<le> c \<and> c \<le> 57) \<or> (65 \<le> c \<and> c \<le> 90) \<or> c = 95 \<or> (97 \<le> c \<and> c \<le> 122)"

text \<open>
  The pattern shared by \<open>BRIDGE_MARKER_EXACT_REGEX\<close>, \<open>BRIDGE_MARKER_IN_TEXT_REGEX\<close> and
  \<open>BRIDGE_MARKER_GLOBAL_REGEX\<close>: \<open>\[\[\s*(?:OC|OPENCLAW_RID)=[^[\]\n]+\]\]\<close> with the flag
  \<open>i\<close>.
\<close>

definition isMarkerBodyUnit :: "nat \<Rightarrow> bool" where
  "isMarkerBodyUnit c \<longleftrightarrow> c \<noteq> 91 \<and> c \<noteq> 93 \<and> c \<noteq> 10"

definition BRIDGE_MARKER_REGEX :: matcher where
  "BRIDGE_MARKER_REGEX =
     mSeq [mLit (lit ''[[''), mMany isWhiteSpace,
           mAlt (mLitCI (lit ''OC'')) (mLitCI (lit ''OPENCLAW_RID'')),
           mLit (lit ''=''), mMany1 isMarkerBodyUnit, mLit (lit '']]'')]"

text \<open>\<open>BRIDGE_MARKER_EXACT_REGEX.test(s)\<close>: the pattern between \<open>^\<close> and \<open>$\<close>.\<close>

definition testBridgeMarkerExact :: "jstring \<Rightarrow> bool" where
  "testBridgeMarkerExact s \<longleftrightarrow> BRIDGE_MARKER_REGEX s = Some []"

text \<open>\<open>BRIDGE_MARKER_IN_TEXT_REGEX.test(s)\<close>: a match at some position.\<close>

fun testBridgeMarkerInText :: "jstring \<Rightarrow> bool" where
  "testBridgeMarkerInText [] = False"
| "testBridgeMarkerInText (c # cs) \<longleftrightarrow>
     BRIDGE_MARKER_REGEX (c # cs) \<noteq> None \<or> testBridgeMarkerInText cs"

text \<open>
  \<open>s.match(BRIDGE_MARKER_GLOBAL_REGEX)\<close>: the matches from left to right, each search
  starting where the previous match ended. The first argument counts the code units of
  the current match that are still to be skipped.
\<close>

fun matchBridgeMarkerGlobal :: "nat \<Rightarrow> jstring \<Rightarrow> jstring list" where
  "matchBridgeMarkerGlobal k [] = []"
| "matchBridgeMarkerGlobal (Suc k) (c # cs) = matchBridgeMarkerGlobal k cs"
| "matchBridgeMarkerGlobal 0 (c # cs) =
     (case BRIDGE_MARKER_REGEX (c # cs) of
        Some r \<Rightarrow>
          take (length (c # cs) - length r) (c # cs)
            # matchBridgeMarkerGlobal (length (c # cs) - length r - 1) cs
      | None \<Rightarrow> matchBridgeMarkerGlobal 0 cs)"

definition resolveBridgeMarker :: "jstring \<Rightarrow> jstring option" where
  "resolveBridgeMarker anchor =
     (let trimmed = trim anchor in
      if testBridgeMarkerExact trimmed then Some trimmed
      else (case matchBridgeMarkerGlobal 0 anchor of
              [] \<Rightarrow> None
            | ms \<Rightarrow> Some (trim (last ms))))"

definition hasBridgeMarkerInAnchor :: "jstring \<Rightarrow> bool" where
  "hasBridgeMarkerInAnchor anchor \<longleftrightarrow> resolveBridgeMarker anchor \<noteq> None"

section \<open>String operations of the extractor\<close>

definition startsWith :: "jstring \<Rightarrow> jstring \<Rightarrow> bool" where
  "startsWith s p \<longleftrightarrow> take (length p) s = p"

fun indexOf :: "jstring \<Rightarrow> jstring \<Rightarrow> nat option" where
  "indexOf [] needle = (if needle = [] then Some 0 else None)"
| "indexOf (c # cs) needle =
     (if startsWith (c # cs) needle then Some 0 else map_option Suc (indexOf cs needle))"

fun lastIndexOf :: "jstring \<Rightarrow> jstring \<Rightarrow> nat option" where
  "lastIndexOf [] needle = (if needle = [] then Some 0 else None)"
| "lastIndexOf (c # cs) needle =
     (case lastIndexOf cs needle of
        Some i \<Rightarrow> Some (Suc i)
      | None \<Rightarrow> if startsWith (c # cs) needle then Some 0 else None)"

definition includesStr :: "jstring \<Rightarrow> jstring \<Rightarrow> bool" where
  "includesStr hay needle \<longleftrightarrow> indexOf hay needle \<noteq> None"

text \<open>\<open>s.split("\n")\<close> and \<open>lines.join("\n")\<close>.\<close>

fun splitLines :: "jstring \<Rightarrow> jstring list" where
  "splitLines [] = [[]]"
| "splitLines (c # cs) =
     (if c = 10 then [] # splitLines cs
      else (case splitLines cs of l # ls \<Rightarrow> (c # l) # ls | [] \<Rightarrow> [[c]]))"

fun joinLines :: "jstring list \<Rightarrow> jstring" where
  "joinLines [] = []"
| "joinLines [l] = l"
| "joinLines (l # ls) = l @ [10] @ joinLines ls"

text \<open>
  \<open>s.replaceAll(needle, "")\<close>: every occurrence from left to right, the search going on
  after each occurrence; the first argument counts the code units of the current
  occurrence that are still to be dropped. An empty needle changes nothing.
\<close>

fun removeAllFrom :: "nat \<Rightarrow> jstring \<Rightarrow> jstring \<Rightarrow> jstring" where
  "removeAllFrom k needle [] = []"
| "removeAllFrom (Suc k) needle (c # cs) = removeAllFrom k needle cs"
| "removeAllFrom 0 needle (c # cs) =
     (if needle \<noteq> [] \<and> startsWith (c # cs) needle
      then removeAllFrom (length needle - 1) needle cs
      else c # removeAllFrom 0 needle cs)"

definition removeAll :: "jstring \<Rightarrow> jstring \<Rightarrow> jstring" where
  "removeAll needle s = removeAllFrom 0 needle s"

text \<open>\<open>s.replace(needle, "")\<close> with a string needle: the first occurrence only.\<close>

definition removeFirst :: "jstring \<Rightarrow> jstring \<Rightarrow> jstring" where
  "removeFirst needle s =
     (case indexOf s needle of
        None \<Rightarrow> s
      | Some i \<Rightarrow> take i s @ drop (i + length needle) s)"

text \<open>\<open>s.replace(/\r\n/g, "\n")\<close>.\<close>

fun replaceCRLF :: "jstring \<Rightarrow> jstring" where
  "replaceCRLF (c # d # rest) =
     (if c = 13 \<and> d = 10 then 10 # replaceCRLF rest else c # replaceCRLF (d # rest))"
| "replaceCRLF [c] = [c]"
| "replaceCRLF [] = []"

text \<open>
  \<open>s.replace(/\s+/g, " ")\<close>: each run of white space becomes one space. The flag says
  that the previous code unit was white space.
\<close>

fun collapseWhiteSpaceFrom :: "bool \<Rightarrow> jstring \<Rightarrow> jstring" where
  "collapseWhiteSpaceFrom inRun [] = []"
| "collapseWhiteSpaceFrom inRun (c # cs) =
     (if isWhiteSpace c
      then (if inRun then collapseWhiteSpaceFrom True cs else 32 # collapseWhiteSpaceFrom True cs)
      else c # collapseWhiteSpaceFrom False cs)"

definition collapseWhiteSpace :: "jstring \<Rightarrow> jstring" where
  "collapseWhiteSpace s = collapseWhiteSpaceFrom False s"

text \<open>
  \<open>s.replace(/[ \t]{2,}/g, " ")\<close>: each run of two or more spaces and tabs becomes one
  space; a single space or tab stays. The flag says that such a run is being replaced.
\<close>

definition isBlank :: "nat \<Rightarrow> bool" where
  "isBlank c \<longleftrightarrow> c = 32 \<or> c = 9"

fun collapseBlankRunsFrom :: "bool \<Rightarrow> jstring \<Rightarrow> jstring" where
  "collapseBlankRunsFrom inRun [] = []"
| "collapseBlankRunsFrom inRun (c # cs) =
     (if inRun
      then (if isBlank c then collapseBlankRunsFrom True cs
            else c # collapseBlankRunsFrom False cs)
      else if isBlank c \<and> (case cs of d # ds \<Rightarrow> isBlank d | [] \<Rightarrow> False)
      then 32 # collapseBlankRunsFrom True cs
      else c # collapseBlankRunsFrom False cs)"

definition collapseBlankRuns :: "jstring \<Rightarrow> jstring" where
  "collapseBlankRuns s = collapseBlankRunsFrom False s"

section \<open>The extractor (ui/extract.ts)\<close>

text \<open>
  \<open>NON_MEANINGFUL_GLYPHS_REGEX\<close>: U+FFFC, U+200B to U+200F, U+2060 and U+FEFF.
\<close>

definition isNonMeaningfulGlyph :: "nat \<Rightarrow> bool" where
  "isNonMeaningfulGlyph c \<longleftrightarrow>
     c = 65532 \<or> (8203 \<le> c \<and> c \<le> 8207) \<or> c = 8288 \<or> c = 65279"

definition stripNonMeaningfulGlyphs :: "jstring \<Rightarrow> jstring" where
  "stripNonMeaningfulGlyphs v = filter (\<lambda>c. \<not> isNonMeaningfulGlyph c) v"

definition UI_NOISE_LABELS :: "jstring list" where
  "UI_NOISE_LABELS =
     [lit ''Activer/D'' @ [233] @ lit ''sactiver La Barre Lat'' @ [233] @ lit ''rale'',
      lit ''Nouveau chat'',
      lit ''Partager'',
      lit ''D'' @ [233] @ lit ''placer vers une nouvelle fen'' @ [234] @ lit ''tre'',
      lit ''Toggle sidebar'',
      lit ''New chat'',
      lit ''Share'',
      lit ''Move to new window'']"

definition UI_NOISE_LINES :: "jstring list" where
  "UI_NOISE_LINES =
     [lit ''pro'', lit ''affordance'', lit ''writing tools'',
      lit ''outils d'' @ [39, 233] @ lit ''criture'',
      lit ''outils d'' @ [8217] @ lit ''ecriture'']"

definition AX_DECORATION_LABELS :: "jstring list" where
  "AX_DECORATION_LABELS = [lit ''texte'', lit ''text'', lit ''static text'']"

text \<open>
  \<open>THINKING_PATTERNS\<close>, each between \<open>^\<close> and \<open>$\<close> with the flag \<open>i\<close>; the code
  unit 233 is the letter e with acute accent:
  \<open>\s*Thinking\s*\<close>, \<open>\s*R[233]flexion\s*\<close>,
  \<open>\s*Thinking\s+for\s+\d+\s+seconds?\s*\<close>,
  \<open>\s*R[233]flexion\s+pendant\s+\d+\s+secondes?\s*\<close>,
  \<open>\s*Thought\s+for\s+\d+\s+seconds?\s*\<close>,
  \<open>\s*A\s+r[233]fl[233]chi\s+pendant\s+\d+\s+secondes?\s*\<close>.
\<close>

definition THINKING_PATTERNS :: "matcher list" where
  "THINKING_PATTERNS =
     [mSeq [mMany isWhiteSpace, mLitCI (lit ''Thinking''), mMany isWhiteSpace, mEnd],
      mSeq [mMany isWhiteSpace, mLitCI (lit ''R'' @ [233] @ lit ''flexion''),
            mMany isWhiteSpace, mEnd],
      mSeq [mMany isWhiteSpace, mLitCI (lit ''Thinking''), mMany1 isWhiteSpace,
            mLitCI (lit ''for''), mMany1 isWhiteSpace, mMany1 isDigit, mMany1 isWhiteSpace,
            mLitCI (lit ''second''), mOpt (mLitCI (lit ''s'')), mMany isWhiteSpace, mEnd],
      mSeq [mMany isWhiteSpace, mLitCI (lit ''R'' @ [233] @ lit ''flexion''),
            mMany1 isWhiteSpace, mLitCI (lit ''pendant''), mMany1 isWhiteSpace,
            mMany1 isDigit, mMany1 isWhiteSpace, mLitCI (lit ''seconde''),
            mOpt (mLitCI (lit ''s'')), mMany isWhiteSpace, mEnd],
      mSeq [mMany isWhiteSpace, mLitCI (lit ''Thought''), mMany1 isWhiteSpace,
            mLitCI (lit ''for''), mMany1 isWhiteSpace, mMany1 isDigit, mMany1 isWhiteSpace,
            mLitCI (lit ''second''), mOpt (mLitCI (lit ''s'')), mMany isWhiteSpace, mEnd],
      mSeq [mMany isWhiteSpace, mLitCI (lit ''A''), mMany1 isWhiteSpace,
            mLitCI (lit ''r'' @ [233] @ lit ''fl'' @ [233] @ lit ''chi''),
            mMany1 isWhiteSpace, mLitCI (lit ''pendant''), mMany1 isWhiteSpace,
            mMany1 isDigit, mMany1 isWhiteSpace, mLitCI (lit ''seconde''),
            mOpt (mLitCI (lit ''s'')), mMany isWhiteSpace, mEnd]]"

definition normalizeLine :: "(jstring \<Rightarrow> jstring) \<Rightarrow> jstring \<Rightarrow> jstring" where
  "normalizeLine lc line = collapseWhiteSpace (lc (trim (stripNonMeaningfulGlyphs line)))"

definition isUiNoiseLine :: "(jstring \<Rightarrow> jstring) \<Rightarrow> jstring \<Rightarrow> bool" where
  "isUiNoiseLine lc line \<longleftrightarrow> normalizeLine lc line \<in> set UI_NOISE_LINES"

definition normalizeForEchoCompare :: "jstring \<Rightarrow> jstring" where
  "normalizeForEchoCompare v =
     trim (collapseWhiteSpace (replaceCRLF (stripNonMeaningfulGlyphs v)))"

text \<open>\<open>/^---\s*begin file:/i\<close> and \<open>/^---\s*end file:/i\<close> on the trimmed line.\<close>

definition isBridgeFileBeginLine :: "jstring \<Rightarrow> bool" where
  "isBridgeFileBeginLine line \<longleftrightarrow>
     mSeq [mLit (lit ''---''), mMany isWhiteSpace, mLitCI (lit ''begin file:'')] (trim line)
       \<noteq> None"

definition isBridgeFileEndLine :: "jstring \<Rightarrow> bool" where
  "isBridgeFileEndLine line \<longleftrightarrow>
     mSeq [mLit (lit ''---''), mMany isWhiteSpace, mLitCI (lit ''end file:'')] (trim line)
       \<noteq> None"

text \<open>
  \<open>isBridgeFileContextLine\<close>; its two regular expressions are \<open>/^files:\s*\d+$/i\<close> and
  \<open>/^path:\s+/i\<close>.
\<close>

definition isBridgeFileContextLine :: "(jstring \<Rightarrow> jstring) \<Rightarrow> jstring \<Rightarrow> bool" where
  "isBridgeFileContextLine lc line \<longleftrightarrow>
     (let trimmed = trim line; lowered = normalizeLine lc trimmed in
      lowered = lit ''[file_context]''
      \<or> lowered = lit ''[/file_context]''
      \<or> startsWith lowered
           (lit ''the following file contents were injected by the local bridge'')
      \<or> startsWith lowered
           (lit ''treat them as authoritative snapshots of the local filesystem'')
      \<or> mSeq [mLitCI (lit ''files:''), mMany isWhiteSpace, mMany1 isDigit, mEnd] trimmed \<noteq> None
      \<or> isBridgeFileBeginLine trimmed
      \<or> isBridgeFileEndLine trimmed
      \<or> mSeq [mLitCI (lit ''path:''), mMany1 isWhiteSpace] trimmed \<noteq> None)"

text \<open>
  \<open>s.split("\n").map(normalizeLine).filter((line) => line.length > 0)\<close>: the lines of a
  prompt (the source makes a \<open>Set\<close> of them and only asks for membership) and the lines
  of a candidate.
\<close>

definition normalizedLines :: "(jstring \<Rightarrow> jstring) \<Rightarrow> jstring \<Rightarrow> jstring list" where
  "normalizedLines lc s =
     filter (\<lambda>line. length line > 0) (map (normalizeLine lc) (splitLines s))"

text \<open>
  The loop of \<open>stripLeadingPromptEcho\<close> over the lines from \<open>start\<close>, with the counters
  \<open>removedPromptLikeLines\<close> and \<open>removedArtifactLines\<close> and the flag \<open>inEchoFileBlock\<close>;
  it returns the counters and the lines from the index where it stops.
\<close>

fun stripLeadingLoop ::
  "(jstring \<Rightarrow> jstring) \<Rightarrow> jstring list \<Rightarrow> nat \<Rightarrow> nat \<Rightarrow> bool \<Rightarrow> jstring list
     \<Rightarrow> nat \<times> nat \<times> jstring list" where
  "stripLeadingLoop lc promptLineSet removedPromptLikeLines removedArtifactLines
       inEchoFileBlock [] =
     (removedPromptLikeLines, removedArtifactLines, [])"
| "stripLeadingLoop lc promptLineSet removedPromptLikeLines removedArtifactLines
       inEchoFileBlock (raw # rest) =
     (let trimmed = trim raw in
      if length trimmed = 0 then
        stripLeadingLoop lc promptLineSet removedPromptLikeLines removedArtifactLines
          inEchoFileBlock rest
      else if inEchoFileBlock then
        (if isBridgeFileEndLine trimmed
         then stripLeadingLoop lc promptLineSet removedPromptLikeLines
                (removedArtifactLines + 1) False rest
         else stripLeadingLoop lc promptLineSet removedPromptLikeLines removedArtifactLines
                True rest)
      else if normalizeLine lc trimmed \<in> set promptLineSet then
        stripLeadingLoop lc promptLineSet (removedPromptLikeLines + 1) removedArtifactLines
          False rest
      else if isBridgeFileBeginLine trimmed then
        stripLeadingLoop lc promptLineSet removedPromptLikeLines (removedArtifactLines + 1)
          True rest
      else if isBridgeFileContextLine lc trimmed then
        stripLeadingLoop lc promptLineSet removedPromptLikeLines (removedArtifactLines + 1)
          False rest
      else (removedPromptLikeLines, removedArtifactLines, raw # rest))"

definition stripLeadingPromptEcho :: "(jstring \<Rightarrow> jstring) \<Rightarrow> jstring \<Rightarrow> jstring \<Rightarrow> jstring" where
  "stripLeadingPromptEcho lc text sentPrompt =
     (case stripLeadingLoop lc (normalizedLines lc sentPrompt) 0 0 False (splitLines text) of
        (removedPromptLikeLines, removedArtifactLines, remaining) \<Rightarrow>
          if removedArtifactLines > 0 \<or> removedPromptLikeLines \<ge> 2
          then trim (joinLines remaining)
          else trim text)"

text \<open>
  \<open>isLikelyPromptEcho\<close>. The last test, \<open>overlapCount / candidateLines.length >= 0.8\<close>,
  compares a quotient of two line counts with four fifths.
\<close>

definition isLikelyPromptEcho :: "(jstring \<Rightarrow> jstring) \<Rightarrow> jstring \<Rightarrow> jstring \<Rightarrow> bool" where
  "isLikelyPromptEcho lc text sentPrompt \<longleftrightarrow>
     (let candidate = trim text; prompt = trim sentPrompt in
      if length candidate = 0 \<or> length prompt = 0 then False
      else
        (let normalizedCandidate = normalizeForEchoCompare candidate;
             normalizedPrompt = normalizeForEchoCompare prompt
         in if includesStr normalizedPrompt normalizedCandidate
               \<and> (length normalizedCandidate \<ge> 120 \<or> includesStr candidate [10])
            then True
            else
              (let promptLineSet = normalizedLines lc prompt;
                   candidateLines = normalizedLines lc candidate
               in if length candidateLines < 3 then False
                  else
                    (let overlapCount =
                           length (filter (\<lambda>line. line \<in> set promptLineSet) candidateLines)
                     in 5 * overlapCount \<ge> 4 * length candidateLines))))"

definition isMeaningfulExtractedText :: "(jstring \<Rightarrow> jstring) \<Rightarrow> jstring \<Rightarrow> jstring \<Rightarrow> bool" where
  "isMeaningfulExtractedText lc text sentPrompt \<longleftrightarrow>
     (let trimmed = trim (stripNonMeaningfulGlyphs text) in
      if length trimmed = 0 then False
      else if trimmed = trim (stripNonMeaningfulGlyphs sentPrompt) then False
      else if isLikelyPromptEcho lc trimmed sentPrompt then False
      else if testBridgeMarkerInText trimmed then False
      else
        (let lines = normalizedLines lc trimmed in
         if length lines = 0 then False
         else \<not> list_all (\<lambda>line. line \<in> set UI_NOISE_LINES) lines))"

text \<open>
  \<open>cleaned.replace(/\bChatGPT\s+\d+\.\d+\b/g, "")\<close>. The first argument counts the code
  units of the current match that are still to be dropped, the second is the code unit
  before the current position (for the word boundary at the start of a match).
\<close>

definition chatGptVersionMatch :: matcher where
  "chatGptVersionMatch s =
     (case mSeq [mLit (lit ''ChatGPT''), mMany1 isWhiteSpace, mMany1 isDigit, mLit (lit ''.''),
                 mMany1 isDigit] s of
        None \<Rightarrow> None
      | Some r \<Rightarrow> (case r of [] \<Rightarrow> Some r | d # ds \<Rightarrow> if isWordUnit d then None else Some r))"

fun removeChatGptVersions :: "nat \<Rightarrow> nat option \<Rightarrow> jstring \<Rightarrow> jstring" where
  "removeChatGptVersions k prev [] = []"
| "removeChatGptVersions (Suc k) prev (c # cs) = removeChatGptVersions k (Some c) cs"
| "removeChatGptVersions 0 prev (c # cs) =
     (if (case prev of None \<Rightarrow> True | Some p \<Rightarrow> \<not> isWordUnit p) then
        (case chatGptVersionMatch (c # cs) of
           Some r \<Rightarrow> removeChatGptVersions (length (c # cs) - length r - 1) (Some c) cs
         | None \<Rightarrow> c # removeChatGptVersions 0 (Some c) cs)
      else c # removeChatGptVersions 0 (Some c) cs)"

record ExtractOptions =
  uiLabelRegenerate :: jstring
  uiLabelContinue :: jstring

definition stripUiNoise :: "(jstring \<Rightarrow> jstring) \<Rightarrow> jstring \<Rightarrow> ExtractOptions \<Rightarrow> jstring" where
  "stripUiNoise lc text options =
     (let cleaned1 = foldl (\<lambda>cleaned label. removeAll label cleaned) text UI_NOISE_LABELS;
          cleaned2 = removeAll [9613]
                       (removeAll (uiLabelContinue options)
                          (removeAll (uiLabelRegenerate options)
                             (removeAll (lit ''Regenerate response'') cleaned1)));
          cleaned3 = removeChatGptVersions 0 None cleaned2;
          cleaned4 =
            joinLines
              (filter (\<lambda>l. \<not> list_ex (\<lambda>p. p l \<noteq> None) THINKING_PATTERNS)
                 (filter (\<lambda>l. \<not> isUiNoiseLine lc l)
                    (filter (\<lambda>l. lc (trim l) \<notin> set AX_DECORATION_LABELS)
                       (splitLines cleaned3))));
          cleaned5 = stripNonMeaningfulGlyphs cleaned4
      in trim (collapseBlankRuns cleaned5))"

text \<open>
  \<open>deduplicateAxText\<close>: first the two halves by code units, then the splits by lines at
  the offsets \<open>-2\<close> to \<open>2\<close> around the middle line.
\<close>

fun deduplicateByLines :: "jstring list \<Rightarrow> int list \<Rightarrow> jstring option" where
  "deduplicateByLines lines [] = None"
| "deduplicateByLines lines (offset # offsets) =
     (let split = int (length lines div 2) + offset in
      if split \<le> 0 \<or> split \<ge> int (length lines) then deduplicateByLines lines offsets
      else
        (let firstHalf = trim (joinLines (take (nat split) lines));
             secondHalf = trim (joinLines (drop (nat split) lines))
         in if firstHalf = secondHalf then Some firstHalf
            else deduplicateByLines lines offsets))"

definition deduplicateAxText :: "jstring \<Rightarrow> jstring" where
  "deduplicateAxText text =
     (let trimmed = trim text; mid = length trimmed div 2 in
      if mid > 0 \<and> trim (take mid trimmed) = trim (drop mid trimmed)
      then trim (take mid trimmed)
      else
        (let lines = splitLines trimmed in
         if length lines < 4 then trimmed
         else (case deduplicateByLines lines [-2, -1, 0, 1, 2] of
                 Some firstHalf \<Rightarrow> firstHalf
               | None \<Rightarrow> trimmed)))"

definition finalizeExtractedCandidate :: "(jstring \<Rightarrow> jstring) \<Rightarrow> jstring \<Rightarrow> jstring \<Rightarrow> jstring" where
  "finalizeExtractedCandidate lc candidate sentPrompt =
     trim (deduplicateAxText (stripLeadingPromptEcho lc candidate sentPrompt))"

fun longestCommonPrefixLength :: "jstring \<Rightarrow> jstring \<Rightarrow> nat" where
  "longestCommonPrefixLength (a # as) (b # bs) =
     (if a = b then Suc (longestCommonPrefixLength as bs) else 0)"
| "longestCommonPrefixLength left right = 0"

definition extractSnapshotDelta :: "jstring \<Rightarrow> jstring \<Rightarrow> jstring" where
  "extractSnapshotDelta fullText previousFullText =
     (if length previousFullText = 0 then fullText
      else
        (let tail = drop (length previousFullText - 1024) previousFullText;
             found = (if length tail \<ge> 128 then lastIndexOf fullText tail else None)
         in case found of
              Some tailIndex \<Rightarrow> drop (tailIndex + length tail) fullText
            | None \<Rightarrow> drop (longestCommonPrefixLength fullText previousFullText) fullText))"

text \<open>
  The errors of the extractor: \<open>ui_error\<close> with \<open>details.reason\<close>, and for
  \<open>extraction_failed\<close> the length of the scraped text.
\<close>

definition uiExtractionError :: "jstring \<Rightarrow> jstring \<Rightarrow> (jstring \<times> DetailValue) list \<Rightarrow> BridgeError" where
  "uiExtractionError message reason extra =
     \<lparr>beCode = ui_error, beMessage = message,
      beDetails = (lit ''reason'', DStr reason) # extra, beRetryAfterSec = None\<rparr>"

text \<open>\<open>/^chatgpt\s+\d+\.\d+$/i\<close>, a test of the last-resort walk.\<close>

definition isChatGptVersionLine :: "jstring \<Rightarrow> bool" where
  "isChatGptVersionLine line \<longleftrightarrow>
     mSeq [mLitCI (lit ''chatgpt''), mMany1 isWhiteSpace, mMany1 isDigit, mLit (lit ''.''),
           mMany1 isDigit, mEnd] line \<noteq> None"

text \<open>
  The last-resort walk of \<open>extractAfterMarker\<close>: from the last line backwards, skipping
  noise, stopping at the prompt boundary; \<open>meaningful\<close> collects the kept lines in their
  order in the text.
\<close>

fun walkBackwards ::
  "(jstring \<Rightarrow> jstring) \<Rightarrow> jstring \<Rightarrow> jstring \<Rightarrow> jstring list \<Rightarrow> jstring list \<Rightarrow> jstring list" where
  "walkBackwards lc promptFirstLine sentPrompt [] meaningful = meaningful"
| "walkBackwards lc promptFirstLine sentPrompt (line # before) meaningful =
     (let lower = lc line in
      if lower \<in> set (map lc UI_NOISE_LABELS) \<or> lower \<in> set AX_DECORATION_LABELS
         \<or> isUiNoiseLine lc lower
      then walkBackwards lc promptFirstLine sentPrompt before meaningful
      else if isChatGptVersionLine line
      then walkBackwards lc promptFirstLine sentPrompt before meaningful
      else if isBridgeFileContextLine lc line
      then walkBackwards lc promptFirstLine sentPrompt before meaningful
      else if length promptFirstLine > 10 \<and> includesStr line promptFirstLine then meaningful
      else if line = sentPrompt then meaningful
      else walkBackwards lc promptFirstLine sentPrompt before (line # meaningful))"

text \<open>
  \<open>extractAfterMarker\<close>. A string is truthy when it is not empty. The dump of the scraped
  text to a file before the last error is a side effect outside the model.
\<close>

definition extractAfterMarker ::
  "(jstring \<Rightarrow> jstring) \<Rightarrow> jstring \<Rightarrow> jstring \<Rightarrow> ExtractOptions \<Rightarrow> BridgeError + jstring" where
  "extractAfterMarker lc fullText marker options =
     (let sentPrompt = marker;
          bridgeMarker = resolveBridgeMarker marker
      in case (case bridgeMarker of Some m \<Rightarrow> if m = [] then None else Some m | None \<Rightarrow> None) of
        Some bm \<Rightarrow>
          (case lastIndexOf fullText bm of
             None \<Rightarrow>
               Inl (uiExtractionError (lit ''Current marker not yet visible in scraped text'')
                      (lit ''marker_not_found'') [])
           | Some lastMarkerIndex \<Rightarrow>
               (let afterMarker = drop (lastMarkerIndex + length bm) fullText;
                    cleaned = stripUiNoise lc afterMarker options;
                    result = finalizeExtractedCandidate lc cleaned sentPrompt
                in if isMeaningfulExtractedText lc result sentPrompt then Inr result
                   else Inl (uiExtractionError
                               (lit ''Response after current marker is not ready'')
                               (lit ''response_not_ready'') [])))
      | None \<Rightarrow>
          (let viaLast =
                 (case lastIndexOf fullText sentPrompt of
                    Some lastPromptIndex \<Rightarrow>
                      (let afterPrompt = drop (lastPromptIndex + length sentPrompt) fullText;
                           cleaned = stripUiNoise lc afterPrompt options;
                           result = finalizeExtractedCandidate lc cleaned sentPrompt
                       in if isMeaningfulExtractedText lc result sentPrompt
                          then Some result else None)
                  | None \<Rightarrow> None)
           in case viaLast of
                Some result \<Rightarrow> Inr result
              | None \<Rightarrow>
                  (let viaFirst =
                         (case indexOf fullText sentPrompt of
                            Some firstPromptIndex \<Rightarrow>
                              (let afterPrompt =
                                     drop (firstPromptIndex + length sentPrompt) fullText;
                                   cleaned = stripUiNoise lc afterPrompt options;
                                   withoutEcho = trim (removeFirst sentPrompt cleaned);
                                   result =
                                     finalizeExtractedCandidate lc
                                       (if length withoutEcho > 0 then withoutEcho else cleaned)
                                       sentPrompt
                               in if isMeaningfulExtractedText lc result sentPrompt
                                  then Some result else None)
                          | None \<Rightarrow> None)
                   in case viaFirst of
                        Some result \<Rightarrow> Inr result
                      | None \<Rightarrow>
                          (let lines = filter (\<lambda>l. length l > 0) (map trim (splitLines fullText));
                               promptFirstLine = trim (hd (splitLines sentPrompt));
                               meaningful =
                                 walkBackwards lc promptFirstLine sentPrompt (rev lines) [];
                               cleaned = stripUiNoise lc (joinLines meaningful) options;
                               result = finalizeExtractedCandidate lc cleaned sentPrompt
                           in if isMeaningfulExtractedText lc result sentPrompt then Inr result
                              else Inl (uiExtractionError
                                          (lit ''Could not extract response from scraped text'')
                                          (lit ''extraction_failed'')
                                          [(lit ''textLength'', DNum (int (length fullText)))])))))"

datatype ExtractionMode = MarkerMode | SnapshotDelta

text \<open>
  \<open>extractAfterMarkerWithSnapshotFallback\<close>; \<open>previousFullText\<close> is the field of the
  fallback options. Every error of \<open>extractAfterMarker\<close> is a \<open>BridgeError\<close>.
\<close>

definition extractAfterMarkerWithSnapshotFallback ::
  "(jstring \<Rightarrow> jstring) \<Rightarrow> jstring \<Rightarrow> jstring \<Rightarrow> ExtractOptions \<Rightarrow> jstring
     \<Rightarrow> BridgeError + (jstring \<times> ExtractionMode)" where
  "extractAfterMarkerWithSnapshotFallback lc fullText marker options previousFullText =
     (let bridgeMarker = resolveBridgeMarker marker in
      case extractAfterMarker lc fullText marker options of
        Inr markerText \<Rightarrow> Inr (markerText, MarkerMode)
      | Inl error \<Rightarrow>
          (let isUiExtractionError = (beCode error = ui_error) in
           if (case bridgeMarker of Some m \<Rightarrow> m \<noteq> [] | None \<Rightarrow> False) then Inl error
           else if \<not> isUiExtractionError then Inl error
           else if length (trim previousFullText) = 0 then Inl error
           else
             (let delta = extractSnapshotDelta fullText previousFullText;
                  cleaned = stripUiNoise lc delta options;
                  result = finalizeExtractedCandidate lc cleaned marker
              in if isMeaningfulExtractedText lc result marker then Inr (result, SnapshotDelta)
                 else Inl (uiExtractionError
                             (lit ''Response delta after snapshot is not ready'')
                             (lit ''response_not_ready'')
                             [(lit ''extractionMode'', DStr (lit ''snapshot_delta''))]))))"

section \<open>The single-flight fingerprint (http/openaiRoutes.ts)\<close>
















section \<open>The file-backed session binding store (session/store.ts)\<close>

text \<open>
  The bindings file holds JSON. \<open>JSON.stringify\<close> and \<open>JSON.parse\<close> belong to the
  language, and \<open>JSON.parse\<close> returns the value whose text \<open>JSON.stringify\<close> wrote, so the
  text of a file is identified with the value it denotes: \<open>JsonText v\<close>, or \<open>OtherText\<close>
  for text that \<open>JSON.parse\<close> rejects. An object is the list of its properties in the
  order of creation.
\<close>

datatype json =
    JNull | JBool bool | JNum rat | JStr jstring | JArr "json list"
  | JObj "(jstring \<times> json) list"

datatype FileText = JsonText json | OtherText

text \<open>
  \<open>Object.entries\<close>: a key that is defined twice keeps its first position and its last
  value; keys that are array indices (canonical decimal numerals below \<open>2^32 - 1\<close>) come
  first, in ascending numeric order, then the other keys in the order of creation.
\<close>

definition decimalValue :: "jstring \<Rightarrow> nat" where
  "decimalValue k = foldl (\<lambda>a d. a * 10 + (d - 48)) 0 k"

definition isArrayIndex :: "jstring \<Rightarrow> bool" where
  "isArrayIndex k \<longleftrightarrow>
     k \<noteq> [] \<and> list_all isDigit k \<and> (k = [48] \<or> hd k \<noteq> 48) \<and> length k \<le> 10
     \<and> decimalValue k < 4294967295"

definition objectEntries :: "(jstring \<times> 'v) list \<Rightarrow> (jstring \<times> 'v) list" where
  "objectEntries props =
     (let own = foldl (\<lambda>acc (k, v). AList.update k v acc) [] props
      in sort_key (\<lambda>(k, v). decimalValue k) (filter (\<lambda>(k, v). isArrayIndex k) own)
         @ filter (\<lambda>(k, v). \<not> isArrayIndex k) own)"

text \<open>
  \<open>output[key] = value\<close> on the plain object \<open>output\<close> with a string value: the key
  \<open>__proto__\<close> names the prototype accessor of \<open>Object.prototype\<close>, whose setter ignores
  a value that is not an object, so the assignment creates no property. Every other key
  becomes an own property.
\<close>

definition plainObjectAssign :: "jstring \<Rightarrow> jstring \<Rightarrow> (jstring \<times> jstring) list \<Rightarrow> (jstring \<times> jstring) list" where
  "plainObjectAssign key v obj =
     (if key = lit ''__proto__'' then obj else AList.update key v obj)"

definition parseBindingsFile :: "(jstring \<Rightarrow> jstring) \<Rightarrow> FileText \<Rightarrow> (jstring \<times> jstring) list" where
  "parseBindingsFile lc raw =
     (case raw of
        OtherText \<Rightarrow> []
      | JsonText parsed \<Rightarrow>
          (let base =
                 (case parsed of
                    JObj props \<Rightarrow>
                      (case map_of (objectEntries props) (lit ''bindings'') of
                         Some b \<Rightarrow> b
                       | None \<Rightarrow> parsed)
                  | _ \<Rightarrow> parsed)
           in case base of
                JObj entries \<Rightarrow>
                  foldl (\<lambda>output (slot, conversationId).
                           (case conversationId of
                              JStr c \<Rightarrow>
                                (case normalizeConversationId (Some c) of
                                   None \<Rightarrow> output
                                 | Some normalizedConversationId \<Rightarrow>
                                     plainObjectAssign (normalizeSessionSlot lc (Some slot))
                                       normalizedConversationId output)
                            | _ \<Rightarrow> output))
                    [] (objectEntries entries)
              | _ \<Rightarrow> []))"

text \<open>
  The store: \<open>bindings\<close> is a \<open>Map\<close>, an association list in insertion order. The disk
  maps a path to the text of the file there. The operations are run one after the other,
  as a caller that awaits each of them sees them; I/O failures other than a missing file
  are not modelled.
\<close>

record FileSessionBindingStore =
  sbFilePath :: jstring
  sbBindings :: "(jstring \<times> jstring) list"
  sbLoaded :: bool

type_synonym disk = "jstring \<rightharpoonup> FileText"

definition newStore :: "jstring \<Rightarrow> FileSessionBindingStore" where
  "newStore filePath = \<lparr>sbFilePath = filePath, sbBindings = [], sbLoaded = False\<rparr>"

definition storeLoad :: "(jstring \<Rightarrow> jstring) \<Rightarrow> FileSessionBindingStore \<Rightarrow> disk \<Rightarrow> FileSessionBindingStore" where
  "storeLoad lc st dk =
     (if sbLoaded st then st
      else (case dk (sbFilePath st) of
              None \<Rightarrow> st\<lparr>sbLoaded := True\<rparr>
            | Some raw \<Rightarrow>
                st\<lparr>sbBindings :=
                      foldl (\<lambda>b (slot, conversationId). AList.update slot conversationId b)
                        (sbBindings st) (objectEntries (parseBindingsFile lc raw)),
                    sbLoaded := True\<rparr>))"

definition storeGet :: "(jstring \<Rightarrow> jstring) \<Rightarrow> FileSessionBindingStore \<Rightarrow> jstring \<Rightarrow> jstring option" where
  "storeGet lc st slot = map_of (sbBindings st) (normalizeSessionSlot lc (Some slot))"

text \<open>
  \<open>persistToDisk\<close>: create the directory, write the serialized bindings to a temporary
  path beside the target, rename it over the target. The process id, the clock and the
  UUID that name the temporary file come from the environment.
\<close>

record PersistEnv =
  pePid :: nat
  peNow :: nat
  peUuid :: jstring

datatype FsOp = Mkdir jstring | WriteFile jstring FileText | Rename jstring jstring

text \<open>\<open>dirname\<close> of \<open>node:path\<close> on POSIX.\<close>

definition dirname :: "jstring \<Rightarrow> jstring" where
  "dirname path =
     (if path = [] then lit ''.''
      else (let hasRoot = (hd path = 47);
                upToEnd = dropWhile (\<lambda>c. c \<noteq> 47) (dropWhile (\<lambda>c. c = 47) (rev (tl path)));
                end = length upToEnd
            in if upToEnd = [] then (if hasRoot then lit ''/'' else lit ''.'')
               else if hasRoot \<and> end = 1 then lit ''//''
               else take end path))"

definition serializeBindings :: "(jstring \<times> jstring) list \<Rightarrow> FileText" where
  "serializeBindings bindings =
     JsonText (JObj [(lit ''bindings'', JObj (map (\<lambda>(slot, c). (slot, JStr c)) bindings))])"

definition tmpPathOf :: "jstring \<Rightarrow> PersistEnv \<Rightarrow> jstring" where
  "tmpPathOf filePath env =
     filePath @ lit ''.'' @ showNat (pePid env) @ lit ''.'' @ showNat (peNow env) @ lit ''.''
       @ peUuid env @ lit ''.tmp''"

definition persistOps :: "FileSessionBindingStore \<Rightarrow> PersistEnv \<Rightarrow> FsOp list" where
  "persistOps st env =
     (let tmpPath = tmpPathOf (sbFilePath st) env
      in [Mkdir (dirname (sbFilePath st)),
          WriteFile tmpPath (serializeBindings (sbBindings st)),
          Rename tmpPath (sbFilePath st)])"

fun applyFsOp :: "disk \<Rightarrow> FsOp \<Rightarrow> disk" where
  "applyFsOp dk (Mkdir d) = dk"
| "applyFsOp dk (WriteFile path text) = dk(path \<mapsto> text)"
| "applyFsOp dk (Rename src dst) =
     (case dk src of None \<Rightarrow> dk | Some text \<Rightarrow> (dk(src := None))(dst \<mapsto> text))"

definition persistToDisk :: "FileSessionBindingStore \<Rightarrow> PersistEnv \<Rightarrow> disk \<Rightarrow> disk" where
  "persistToDisk st env dk = foldl applyFsOp dk (persistOps st env)"

definition storeDelete ::
  "(jstring \<Rightarrow> jstring) \<Rightarrow> PersistEnv \<Rightarrow> FileSessionBindingStore \<times> disk \<Rightarrow> jstring
     \<Rightarrow> FileSessionBindingStore \<times> disk" where
  "storeDelete lc env sd slot =
     (let st = fst sd; dk = snd sd;
          normalizedSlot = normalizeSessionSlot lc (Some slot);
          hadBinding = (map_of (sbBindings st) normalizedSlot \<noteq> None);
          st' = st\<lparr>sbBindings := AList.delete normalizedSlot (sbBindings st)\<rparr>
      in if \<not> hadBinding then (st', dk) else (st', persistToDisk st' env dk))"

definition storeSet ::
  "(jstring \<Rightarrow> jstring) \<Rightarrow> PersistEnv \<Rightarrow> FileSessionBindingStore \<times> disk \<Rightarrow> jstring \<Rightarrow> jstring
     \<Rightarrow> FileSessionBindingStore \<times> disk" where
  "storeSet lc env sd slot conversationId =
     (let st = fst sd; dk = snd sd;
          normalizedSlot = normalizeSessionSlot lc (Some slot)
      in case normalizeConversationId (Some conversationId) of
           None \<Rightarrow> storeDelete lc env sd normalizedSlot
         | Some normalizedConversationId \<Rightarrow>
             (let st' = st\<lparr>sbBindings :=
                              AList.update normalizedSlot normalizedConversationId (sbBindings st)\<rparr>
              in (st', persistToDisk st' env dk)))"

text \<open>A run of store operations, each with the environment of its write.\<close>

datatype StoreOp = OpLoad | OpSet jstring jstring | OpDelete jstring

fun storeStep ::
  "(jstring \<Rightarrow> jstring) \<Rightarrow> FileSessionBindingStore \<times> disk \<Rightarrow> StoreOp \<times> PersistEnv
     \<Rightarrow> FileSessionBindingStore \<times> disk" where
  "storeStep lc sd (OpLoad, env) = (storeLoad lc (fst sd) (snd sd), snd sd)"
| "storeStep lc sd (OpSet slot c, env) = storeSet lc env sd slot c"
| "storeStep lc sd (OpDelete slot, env) = storeDelete lc env sd slot"

definition storeRun ::
  "(jstring \<Rightarrow> jstring) \<Rightarrow> FileSessionBindingStore \<times> disk \<Rightarrow> (StoreOp \<times> PersistEnv) list
     \<Rightarrow> FileSessionBindingStore \<times> disk" where
  "storeRun lc sd ops = foldl (storeStep lc) sd ops"

text \<open>No stored conversation id is empty or consists of white space only.\<close>

definition holdsNoBlankId :: "FileSessionBindingStore \<Rightarrow> bool" where
  "holdsNoBlankId st \<longleftrightarrow> list_all (\<lambda>(slot, c). c \<noteq> [] \<and> trim c \<noteq> []) (sbBindings st)"

text \<open>
  What the proofs use of \<open>toLowerCase\<close>: it is idempotent, it leaves a trimmed string
  trimmed, and it fixes the slot name \<open>default\<close>.
\<close>

definition lowerCaseLaws :: "(jstring \<Rightarrow> jstring) \<Rightarrow> bool" where
  "lowerCaseLaws lc \<longleftrightarrow>
     (\<forall>s. lc (lc s) = lc s) \<and> (\<forall>s. trim (lc (trim s)) = lc (trim s))
     \<and> lc (lit ''default'') = lit ''default''"

section \<open>The token bucket (utils/rateLimit.ts)\<close>








section \<open>Concrete inputs\<close>

text \<open>A configuration for the evaluations at concrete inputs.\<close>

definition exampleConfig :: "SessionBindingMode \<Rightarrow> BridgeConfig" where
  "exampleConfig m =
     \<lparr>cfgVersion = lit ''1.1.0'', cfgResetStrict = False, cfgSessionBindingMode = m,
      cfgSessionDefaultSlot = lit ''default'', cfgSessionBindingStrictOpen = True\<rparr>"

definition exampleDeps :: "SessionBindingMode \<Rightarrow> Deps" where
  "exampleDeps m = \<lparr>dConfig = exampleConfig m, dQueueDepth = 0\<rparr>"

definition emptyResponse :: Response where
  "emptyResponse =
     \<lparr>resStatus = None, resHeaders = Map.empty, resPayload = None, resLocalsRid = None\<rparr>"

definition examplePost :: Request where
  "examplePost =
     \<lparr>reqMethod = lit ''POST'', reqPath = lit ''/v1/chat/completions'',
      reqRequestIdHeader = None\<rparr>"

definition exampleGetConversations :: Request where
  "exampleGetConversations =
     \<lparr>reqMethod = lit ''GET'', reqPath = lit ''/v1/bridge/conversations'',
      reqRequestIdHeader = None\<rparr>"




definition exampleEnv :: PersistEnv where
  "exampleEnv = \<lparr>pePid = 4242, peNow = 1700000000000, peUuid = lit ''0b6c7d3e-uuid''\<rparr>"

definition exampleBoundStore :: FileSessionBindingStore where
  "exampleBoundStore =
     \<lparr>sbFilePath = lit ''/state/session-bindings.json'',
      sbBindings = [(lit ''team-a'', lit ''Project Beta'')], sbLoaded = True\<rparr>"

(*THEOREMS*)

section \<open>Routing resolution\<close>

lemma resHeaders_setHeader: "resHeaders (setHeader n v r) = (resHeaders r)(n \<mapsto> v)"
  by (simp add: setHeader_def)

lemma sendOpenAiError_status:
  "resStatus (sendOpenAiError fresh deps req res e cr hc) = Some (esStatus e)"
  by (simp add: sendOpenAiError_def Let_def)

lemma sendOpenAiError_payload:
  "resPayload (sendOpenAiError fresh deps req res e cr hc) = Some (buildOpenAiErrorPayload e)"
  by (simp add: sendOpenAiError_def Let_def)









section \<open>The headers of a queue-full answer\<close>

lemma codeName_queue_full: "codeName c = lit ''queue_full'' \<longleftrightarrow> c = queue_full"
  by (cases c) (simp_all add: lit_def)

lemma mapBridgeError_queue_full:
  "beCode e = queue_full \<Longrightarrow>
     mapBridgeError e =
       \<lparr>esMessage = beMessage e, esCode = lit ''queue_full'', esStatus = 429,
        esRetryAfterSec = Some (case beRetryAfterSec e of None \<Rightarrow> 10 | Some r \<Rightarrow> r)\<rparr>"
  by (simp add: mapBridgeError_def)

lemma mapBridgeError_code: "esCode (mapBridgeError e) = codeName (beCode e)"
  by (cases "beCode e") (simp_all add: mapBridgeError_def)

lemma resHeaders_getRequestId: "resHeaders (snd (getRequestId fresh req r)) = resHeaders r"
  by (simp add: getRequestId_def Let_def split: option.split)

definition bridgeHeaderNames :: "jstring list" where
  "bridgeHeaderNames =
     [lit ''x-bridge-version'', lit ''x-bridge-request-id'', lit ''x-bridge-queue-depth'',
      lit ''x-bridge-context-reset'', lit ''x-bridge-reset-strict'',
      lit ''x-bridge-session-slot'', lit ''x-bridge-conversation-id'']"

lemma setBridgeHeaders_other:
  assumes "n \<notin> set bridgeHeaderNames"
  shows "resHeaders (setBridgeHeaders fresh deps req res cr hc) n = resHeaders res n"
  using assms
  unfolding setBridgeHeaders_def Let_def case_prod_beta resHeaders_setHeader
    resHeaders_getRequestId bridgeHeaderNames_def
  by simp

lemma retry_header_names:
  "lit ''x-should-retry'' \<notin> set bridgeHeaderNames"
  "lit ''Retry-After'' \<notin> set bridgeHeaderNames"
  "lit ''Retry-After'' \<noteq> lit ''x-should-retry''"
  by (simp_all add: bridgeHeaderNames_def lit_def)

lemma sendOpenAiError_retry_after:
  "resHeaders (sendOpenAiError fresh deps req res e cr hc) (lit ''Retry-After'') =
     (case esRetryAfterSec e of
        Some r \<Rightarrow> Some (showInt r)
      | None \<Rightarrow> resHeaders res (lit ''Retry-After''))"
  by (simp add: sendOpenAiError_def Let_def resHeaders_setHeader setBridgeHeaders_other
      retry_header_names split: option.split)

lemma sendOpenAiError_should_retry:
  "resHeaders (sendOpenAiError fresh deps req res e cr hc) (lit ''x-should-retry'') =
     (if shouldDisableClientRetry req then Some (lit ''false'')
      else resHeaders res (lit ''x-should-retry''))"
  using retry_header_names(3)
  by (simp add: sendOpenAiError_def Let_def resHeaders_setHeader setBridgeHeaders_other
      retry_header_names(1,2) split: option.split)

lemma catch_is_sendOpenAiError:
  assumes "r = completionsCatch fresh deps req res hc e \<or> r = conversationsCatch fresh deps req res e"
  shows "\<exists>hc'. r = sendOpenAiError fresh deps req res (mapBridgeError e) (extractContextReset e) hc'"
  using assms by (auto simp: completionsCatch_def conversationsCatch_def)

text \<open>
  C5, as the code has it. Let \<open>r\<close> be the answer of the \<open>catch\<close> block of
  \<open>POST /v1/chat/completions\<close> or of \<open>GET /v1/bridge/conversations\<close> to an error
  \<open>e\<close>, on a response that has no \<open>x-should-retry\<close> header yet. If \<open>r\<close> has status 429
  and code \<open>queue_full\<close>, then \<open>e\<close> is a \<open>queue_full\<close> error, \<open>r\<close> carries \<open>Retry-After\<close>
  with the error's hint (10 when it has none), and \<open>r\<close> carries \<open>x-should-retry: false\<close>
  exactly when the request's method is POST and its path is \<open>/v1/chat/completions\<close>;
  otherwise it has no \<open>x-should-retry\<close> header.
\<close>

theorem queue_full_response_headers:
  assumes r: "r = completionsCatch fresh deps req res hc e
              \<or> r = conversationsCatch fresh deps req res e"
    and unset: "resHeaders res (lit ''x-should-retry'') = None"
    and status: "resStatus r = Some 429"
    and code: "map_option pCode (resPayload r) = Some (lit ''queue_full'')"
  shows "beCode e = queue_full
     \<and> resHeaders r (lit ''Retry-After'')
         = Some (showInt (case beRetryAfterSec e of None \<Rightarrow> 10 | Some s \<Rightarrow> s))
     \<and> resHeaders r (lit ''x-should-retry'')
         = (if toUpperCaseAscii (reqMethod req) = lit ''POST''
               \<and> reqPath req = lit ''/v1/chat/completions''
            then Some (lit ''false'') else None)"
proof -
  from catch_is_sendOpenAiError [OF r] obtain hc' where
    r': "r = sendOpenAiError fresh deps req res (mapBridgeError e) (extractContextReset e) hc'"
    by blast
  from code have "esCode (mapBridgeError e) = lit ''queue_full''"
    by (simp add: r' sendOpenAiError_payload buildOpenAiErrorPayload_def)
  then have q: "beCode e = queue_full"
    by (simp add: mapBridgeError_code codeName_queue_full)
  have ra: "resHeaders r (lit ''Retry-After'')
         = Some (showInt (case beRetryAfterSec e of None \<Rightarrow> 10 | Some s \<Rightarrow> s))"
    by (simp add: r' sendOpenAiError_retry_after mapBridgeError_queue_full [OF q])
  have sr: "resHeaders r (lit ''x-should-retry'')
         = (if toUpperCaseAscii (reqMethod req) = lit ''POST''
               \<and> reqPath req = lit ''/v1/chat/completions''
            then Some (lit ''false'') else None)"
    by (simp add: r' sendOpenAiError_should_retry unset shouldDisableClientRetry_def)
  from q ra sr show ?thesis by simp
qed

text \<open>
  A full queue on the completion endpoint: status 429, code \<open>queue_full\<close>,
  \<open>Retry-After: 10\<close> and \<open>x-should-retry: false\<close>.
\<close>

theorem queue_full_response_headers_witness:
  "resStatus (completionsCatch [] (exampleDeps Off) examplePost emptyResponse
       \<lparr>hcSessionSlot = None, hcConversationId = None\<rparr> (queueFullError 20)) = Some 429
   \<and> resHeaders (completionsCatch [] (exampleDeps Off) examplePost emptyResponse
       \<lparr>hcSessionSlot = None, hcConversationId = None\<rparr> (queueFullError 20))
       (lit ''Retry-After'') = Some (lit ''10'')
   \<and> resHeaders (completionsCatch [] (exampleDeps Off) examplePost emptyResponse
       \<lparr>hcSessionSlot = None, hcConversationId = None\<rparr> (queueFullError 20))
       (lit ''x-should-retry'') = Some (lit ''false'')"
proof -
  let ?r = "completionsCatch [] (exampleDeps Off) examplePost emptyResponse
       \<lparr>hcSessionSlot = None, hcConversationId = None\<rparr> (queueFullError 20)"
  have st: "resStatus ?r = Some 429"
    by (simp add: completionsCatch_def sendOpenAiError_status mapBridgeError_queue_full
        queueFullError_def)
  have cd: "map_option pCode (resPayload ?r) = Some (lit ''queue_full'')"
    by (simp add: completionsCatch_def sendOpenAiError_payload mapBridgeError_queue_full
        queueFullError_def buildOpenAiErrorPayload_def)
  have un: "resHeaders emptyResponse (lit ''x-should-retry'') = None"
    by (simp add: emptyResponse_def)
  have ten: "showInt 10 = lit ''10''"
    by (simp add: showInt_def showNat.simps lit_def)
  have post: "toUpperCaseAscii (reqMethod examplePost) = lit ''POST''
      \<and> reqPath examplePost = lit ''/v1/chat/completions''"
    by (simp add: examplePost_def toUpperCaseAscii_def lit_def)
  from queue_full_response_headers [where r = "?r" and fresh = "[]" and deps = "exampleDeps Off"
      and req = examplePost and res = emptyResponse
      and hc = "\<lparr>hcSessionSlot = None, hcConversationId = None\<rparr>" and e = "queueFullError 20",
      OF disjI1 [OF refl] un st cd]
  show ?thesis
    using st ten post by (simp add: queueFullError_def)
qed

text \<open>
  The claim as stated fails on the conversation listing: a full queue is answered with
  429 and \<open>queue_full\<close>, and the answer has no \<open>x-should-retry\<close> header.
\<close>

theorem queue_full_conversations_counterexample:
  "resStatus (conversationsCatch [] (exampleDeps Off) exampleGetConversations emptyResponse
       (queueFullError 20)) = Some 429
   \<and> map_option pCode (resPayload (conversationsCatch [] (exampleDeps Off)
       exampleGetConversations emptyResponse (queueFullError 20))) = Some (lit ''queue_full'')
   \<and> resHeaders (conversationsCatch [] (exampleDeps Off) exampleGetConversations emptyResponse
       (queueFullError 20)) (lit ''x-should-retry'') = None"
proof -
  have get: "\<not> shouldDisableClientRetry exampleGetConversations"
    by (simp add: shouldDisableClientRetry_def exampleGetConversations_def toUpperCaseAscii_def
        lit_def)
  show ?thesis
    by (simp add: conversationsCatch_def sendOpenAiError_status sendOpenAiError_payload
        sendOpenAiError_should_retry get mapBridgeError_queue_full queueFullError_def
        buildOpenAiErrorPayload_def emptyResponse_def)
qed

section \<open>The marker\<close>













section \<open>The single-flight fingerprint\<close>





section \<open>The session binding store\<close>

lemma dropWhile_fix: "xs = [] \<or> \<not> P (hd xs) \<Longrightarrow> dropWhile P xs = xs"
  by (cases xs) auto

lemma dropWhile_head: "dropWhile P xs = [] \<or> \<not> P (hd (dropWhile P xs))"
  by (metis hd_dropWhile)

lemma trim_ends:
  "trim s = [] \<or> (\<not> isWhiteSpace (hd (trim s)) \<and> \<not> isWhiteSpace (last (trim s)))"
proof -
  let ?a = "dropWhile isWhiteSpace s"
  let ?b = "dropWhile isWhiteSpace (rev ?a)"
  have t: "trim s = rev ?b" by (simp add: trim_def)
  show ?thesis
  proof (cases "?b = []")
    case True
    then show ?thesis by (simp add: t)
  next
    case False
    then have l: "\<not> isWhiteSpace (hd ?b)" by (metis hd_dropWhile)
    have an: "?a \<noteq> []"
    proof
      assume e: "?a = []"
      have "?b = dropWhile isWhiteSpace (rev [])" by (simp only: e)
      then have "?b = []" by simp
      with False show False by blast
    qed
    then have ha: "\<not> isWhiteSpace (hd ?a)" by (metis hd_dropWhile)
    have "last ?b = last (rev ?a)"
      using False by (metis append_self_conv2 last_appendR takeWhile_dropWhile_id)
    then have "last ?b = hd ?a" using an by (simp add: last_rev)
    then have "\<not> isWhiteSpace (hd (rev ?b))" using ha False by (simp add: hd_rev)
    moreover have "\<not> isWhiteSpace (last (rev ?b))" using l False by (simp add: last_rev)
    ultimately show ?thesis by (simp add: t)
  qed
qed

lemma trim_fix: "s = [] \<or> (\<not> isWhiteSpace (hd s) \<and> \<not> isWhiteSpace (last s)) \<Longrightarrow> trim s = s"
proof (cases "s = []")
  case True
  then show ?thesis by (simp add: trim_def)
next
  case False
  assume "s = [] \<or> (\<not> isWhiteSpace (hd s) \<and> \<not> isWhiteSpace (last s))"
  with False have h: "\<not> isWhiteSpace (hd s)" and l: "\<not> isWhiteSpace (last s)" by auto
  from h False have a: "dropWhile isWhiteSpace s = s" by (simp add: dropWhile_fix)
  from l False have "dropWhile isWhiteSpace (rev s) = rev s"
    by (intro dropWhile_fix) (simp add: hd_rev)
  with a show ?thesis by (simp add: trim_def)
qed

lemma trim_idem: "trim (trim s) = trim s"
  using trim_ends [of s] by (intro trim_fix) simp

lemma trim_default: "trim (lit ''default'') = lit ''default''"
  by (simp add: trim_def lit_def isWhiteSpace_def)

lemma normalizeSessionSlot_idem:
  assumes "lowerCaseLaws lc"
  shows "normalizeSessionSlot lc (Some (normalizeSessionSlot lc x)) = normalizeSessionSlot lc x"
proof -
  from assms have i: "\<And>s. lc (lc s) = lc s" and t: "\<And>s. trim (lc (trim s)) = lc (trim s)"
    and d: "lc (lit ''default'') = lit ''default''"
    by (simp_all add: lowerCaseLaws_def)
  have dn: "lit ''default'' \<noteq> []" by (simp add: lit_def)
  have def: "normalizeSessionSlot lc (Some (lit ''default'')) = lit ''default''"
    by (simp add: normalizeSessionSlot_def trim_default d dn)
  show ?thesis
  proof (cases x)
    case None
    have "normalizeSessionSlot lc None = lit ''default''"
      by (simp add: normalizeSessionSlot_def)
    then show ?thesis by (simp only: None def)
  next
    case (Some s)
    show ?thesis
    proof (cases "lc (trim s) = []")
      case True
      then have "normalizeSessionSlot lc x = lit ''default''"
        by (simp add: Some normalizeSessionSlot_def)
      then show ?thesis by (simp add: def)
    next
      case False
      then have n: "normalizeSessionSlot lc x = lc (trim s)"
        by (simp add: Some normalizeSessionSlot_def)
      have "lc (trim (lc (trim s))) = lc (trim s)" by (simp add: t i)
      then have "normalizeSessionSlot lc (Some (lc (trim s))) = lc (trim s)"
        using False by (simp add: normalizeSessionSlot_def)
      then show ?thesis by (simp only: n)
    qed
  qed
qed

lemma normalizeConversationId_blank: "trim c = [] \<Longrightarrow> normalizeConversationId (Some c) = None"
  by (simp add: normalizeConversationId_def)

lemma normalizeConversationId_Some:
  "normalizeConversationId x = Some n \<Longrightarrow> n \<noteq> [] \<and> trim n = n"
  by (auto simp: normalizeConversationId_def Let_def trim_idem split: option.splits if_splits)

lemma set_update_subset: "set (AList.update k v al) \<subseteq> insert (k, v) (set al)"
  by (induction al) auto

lemma set_delete_subset: "set (AList.delete k al) \<subseteq> set al"
  by (induction al) auto

lemma foldl_update_set:
  "set (foldl (\<lambda>acc (k, v). AList.update k v acc) acc xs) \<subseteq> set acc \<union> set xs"
proof (induction xs arbitrary: acc)
  case Nil
  then show ?case by simp
next
  case (Cons x xs)
  obtain k v where x: "x = (k, v)" by (cases x)
  have "set (foldl (\<lambda>acc (k, v). AList.update k v acc) (AList.update k v acc) xs)
      \<subseteq> set (AList.update k v acc) \<union> set xs"
    by (rule Cons.IH)
  also have "\<dots> \<subseteq> insert (k, v) (set acc) \<union> set xs"
    using set_update_subset [of k v acc] by blast
  finally show ?case by (auto simp: x)
qed

lemma objectEntries_set: "set (objectEntries props) \<subseteq> set props"
proof -
  have "set (objectEntries props)
      \<subseteq> set (foldl (\<lambda>acc (k, v). AList.update k v acc) [] props)"
    by (auto simp: objectEntries_def Let_def)
  also have "\<dots> \<subseteq> set props"
    using foldl_update_set [of "[]" props] by simp
  finally show ?thesis .
qed

lemma list_all_update:
  "P (k, v) \<Longrightarrow> list_all P al \<Longrightarrow> list_all P (AList.update k v al)"
  using set_update_subset [of k v al] by (auto simp: list_all_iff)

lemma list_all_delete: "list_all P al \<Longrightarrow> list_all P (AList.delete k al)"
  using set_delete_subset [of k al] by (auto simp: list_all_iff)

lemma foldl_invariant:
  assumes "P a" and "\<And>acc x. P acc \<Longrightarrow> x \<in> set xs \<Longrightarrow> P (f acc x)"
  shows "P (foldl f a xs)"
  using assms by (induction xs arbitrary: a) auto

lemma nonblank_trimmed: "n \<noteq> [] \<Longrightarrow> trim n = n \<Longrightarrow> n \<noteq> [] \<and> trim n \<noteq> []"
  by simp

lemma parseBindingsFile_nonblank:
  "list_all (\<lambda>(slot, c). c \<noteq> [] \<and> trim c \<noteq> []) (parseBindingsFile lc raw)"
proof -
  let ?P = "list_all (\<lambda>(slot, c::jstring). c \<noteq> [] \<and> trim c \<noteq> [])"
  let ?step = "\<lambda>output (slot, conversationId).
                           (case conversationId of
                              JStr c \<Rightarrow>
                                (case normalizeConversationId (Some c) of
                                   None \<Rightarrow> output
                                 | Some normalizedConversationId \<Rightarrow>
                                     plainObjectAssign (normalizeSessionSlot lc (Some slot))
                                       normalizedConversationId output)
                            | _ \<Rightarrow> output)"
  have step: "?P (?step acc x)" if "?P acc" for acc x
  proof -
    obtain slot v where x: "x = (slot, v)" by (cases x)
    show ?thesis
    proof (cases v)
      case (JStr c)
      show ?thesis
      proof (cases "normalizeConversationId (Some c)")
        case None
        then show ?thesis using that by (simp add: x JStr)
      next
        case (Some n)
        then have "n \<noteq> [] \<and> trim n \<noteq> []"
          using normalizeConversationId_Some [OF Some] by simp
        then show ?thesis
          using that by (simp add: x JStr Some plainObjectAssign_def list_all_update)
      qed
    qed (use that in \<open>simp_all add: x\<close>)
  qed
  have fold: "?P (foldl ?step [] xs)" for xs
    by (rule foldl_invariant) (simp_all add: step)
  show ?thesis
    by (simp add: parseBindingsFile_def Let_def fold split: FileText.split json.split)
qed

lemma storeLoad_holdsNoBlankId:
  assumes "holdsNoBlankId st"
  shows "holdsNoBlankId (storeLoad lc st dk)"
proof (cases "sbLoaded st")
  case True
  then show ?thesis using assms by (simp add: storeLoad_def)
next
  case False
  show ?thesis
  proof (cases "dk (sbFilePath st)")
    case None
    then show ?thesis using assms False by (simp add: storeLoad_def holdsNoBlankId_def)
  next
    case (Some raw)
    let ?P = "\<lambda>(slot, c::jstring). c \<noteq> [] \<and> trim c \<noteq> []"
    have e: "list_all ?P (objectEntries (parseBindingsFile lc raw))"
      using parseBindingsFile_nonblank [of lc raw] objectEntries_set [of "parseBindingsFile lc raw"]
      by (auto simp: list_all_iff)
    have "list_all ?P
        (foldl (\<lambda>b (slot, conversationId). AList.update slot conversationId b)
           (sbBindings st) (objectEntries (parseBindingsFile lc raw)))"
    proof (rule foldl_invariant)
      show "list_all ?P (sbBindings st)" using assms by (simp add: holdsNoBlankId_def)
    next
      fix acc :: "(jstring \<times> jstring) list" and x :: "jstring \<times> jstring"
      assume a: "list_all ?P acc" and x: "x \<in> set (objectEntries (parseBindingsFile lc raw))"
      obtain k v where kv: "x = (k, v)" by (cases x)
      from e x have "?P (k, v)" by (auto simp: list_all_iff kv)
      then show "list_all ?P (case x of (slot, conversationId) \<Rightarrow> AList.update slot conversationId acc)"
        using a by (simp add: kv list_all_update)
    qed
    then show ?thesis using False Some by (simp add: storeLoad_def holdsNoBlankId_def)
  qed
qed

lemma storeDelete_bindings:
  "sbBindings (fst (storeDelete lc env (st, dk) slot))
     = AList.delete (normalizeSessionSlot lc (Some slot)) (sbBindings st)"
  by (simp add: storeDelete_def Let_def)

lemma storeDelete_holdsNoBlankId:
  "holdsNoBlankId (fst sd) \<Longrightarrow> holdsNoBlankId (fst (storeDelete lc env sd slot))"
  by (cases sd) (simp add: holdsNoBlankId_def storeDelete_bindings list_all_delete)

lemma storeSet_holdsNoBlankId:
  assumes "holdsNoBlankId (fst sd)"
  shows "holdsNoBlankId (fst (storeSet lc env sd slot c))"
proof (cases "normalizeConversationId (Some c)")
  case None
  then show ?thesis using assms by (simp add: storeSet_def Let_def storeDelete_holdsNoBlankId)
next
  case (Some n)
  then have "n \<noteq> [] \<and> trim n \<noteq> []"
    using normalizeConversationId_Some [OF Some] by simp
  then show ?thesis
    using assms by (simp add: storeSet_def Let_def Some holdsNoBlankId_def list_all_update)
qed

lemma storeStep_holdsNoBlankId:
  "holdsNoBlankId (fst sd) \<Longrightarrow> holdsNoBlankId (fst (storeStep lc sd x))"
proof -
  assume a: "holdsNoBlankId (fst sd)"
  obtain op env where x: "x = (op, env)" by (cases x)
  show ?thesis
    by (cases op)
      (simp_all add: x a storeLoad_holdsNoBlankId storeSet_holdsNoBlankId
        storeDelete_holdsNoBlankId)
qed

lemma storeRun_holdsNoBlankId:
  "holdsNoBlankId (fst sd) \<Longrightarrow> holdsNoBlankId (fst (storeRun lc sd ops))"
  unfolding storeRun_def
  by (induction ops arbitrary: sd) (simp_all add: storeStep_holdsNoBlankId)

lemma newStore_holdsNoBlankId: "holdsNoBlankId (newStore filePath)"
  by (simp add: newStore_def holdsNoBlankId_def)

lemma isWhiteSpace_lower:
  "isWhiteSpace (if 65 \<le> c \<and> c \<le> 90 then c + 32 else c) = isWhiteSpace c"
  by (auto simp: isWhiteSpace_def)

lemma toLowerCaseAscii_laws: "lowerCaseLaws toLowerCaseAscii"
proof -
  let ?f = "\<lambda>c::nat. if 65 \<le> c \<and> c \<le> 90 then c + 32 else c"
  have idem: "toLowerCaseAscii (toLowerCaseAscii s) = toLowerCaseAscii s" for s
    by (simp add: toLowerCaseAscii_def)
  have keep: "trim (toLowerCaseAscii (trim s)) = toLowerCaseAscii (trim s)" for s
  proof (cases "trim s = []")
    case True
    show ?thesis unfolding True toLowerCaseAscii_def by (simp add: trim_def)
  next
    case False
    with trim_ends [of s] have h: "\<not> isWhiteSpace (hd (trim s))"
      and l: "\<not> isWhiteSpace (last (trim s))" by auto
    have "\<not> isWhiteSpace (hd (map ?f (trim s)))"
      using False h by (simp add: hd_map isWhiteSpace_lower)
    moreover have "\<not> isWhiteSpace (last (map ?f (trim s)))"
      using False l by (simp add: last_map isWhiteSpace_lower)
    ultimately show ?thesis
      unfolding toLowerCaseAscii_def by (intro trim_fix) simp
  qed
  have "toLowerCaseAscii (lit ''default'') = lit ''default''"
    by (simp add: toLowerCaseAscii_def lit_def)
  with idem keep show ?thesis by (simp add: lowerCaseLaws_def)
qed

text \<open>
  C10. When the conversation id trims to the empty string, \<open>set\<close> stores nothing: the
  bindings afterwards are the bindings before without the one of the normalized slot, so
  \<open>get\<close> of the same slot finds nothing. A store never holds an empty or white-space-only
  conversation id: \<open>set\<close> (with any id) keeps it so, and it is so after every run of
  \<open>load\<close>, \<open>set\<close> and \<open>delete\<close> on a new store, whatever the disk holds.
\<close>

theorem set_blank_id_deletes:
  assumes "lowerCaseLaws lc" and "trim conversationId = []"
  shows "sbBindings (fst (storeSet lc env (st, dk) slot conversationId))
           = AList.delete (normalizeSessionSlot lc (Some slot)) (sbBindings st)
     \<and> storeGet lc (fst (storeSet lc env (st, dk) slot conversationId)) slot = None
     \<and> (holdsNoBlankId st \<longrightarrow> holdsNoBlankId (fst (storeSet lc env (st, dk) slot c)))
     \<and> holdsNoBlankId (fst (storeRun lc (newStore filePath, dk0) ops))"
proof -
  let ?k = "normalizeSessionSlot lc (Some slot)"
  have k: "normalizeSessionSlot lc (Some ?k) = ?k"
    by (rule normalizeSessionSlot_idem [OF assms(1)])
  have b: "sbBindings (fst (storeSet lc env (st, dk) slot conversationId))
           = AList.delete ?k (sbBindings st)"
    by (simp add: storeSet_def Let_def normalizeConversationId_blank [OF assms(2)]
        storeDelete_bindings k)
  have g: "storeGet lc (fst (storeSet lc env (st, dk) slot conversationId)) slot = None"
    by (simp add: storeGet_def b delete_conv)
  have i: "holdsNoBlankId st \<longrightarrow> holdsNoBlankId (fst (storeSet lc env (st, dk) slot c))"
    using storeSet_holdsNoBlankId [of "(st, dk)" lc env slot c] by simp
  have r: "holdsNoBlankId (fst (storeRun lc (newStore filePath, dk0) ops))"
    by (rule storeRun_holdsNoBlankId) (simp add: newStore_holdsNoBlankId)
  from b g i r show ?thesis by blast
qed

text \<open>
  The slot \<open>" Team-A "\<close> is bound to \<open>Project Beta\<close> and then set to three spaces.
\<close>

theorem set_blank_id_deletes_witness:
  "storeGet toLowerCaseAscii exampleBoundStore (lit '' Team-A '') = Some (lit ''Project Beta'')
   \<and> storeGet toLowerCaseAscii
       (fst (storeSet toLowerCaseAscii exampleEnv (exampleBoundStore, Map.empty)
          (lit '' Team-A '') (lit ''   ''))) (lit '' Team-A '') = None
   \<and> sbBindings
       (fst (storeSet toLowerCaseAscii exampleEnv (exampleBoundStore, Map.empty)
          (lit '' Team-A '') (lit ''   ''))) = []"
proof -
  have blank: "trim (lit ''   '') = []"
    by (simp add: trim_def lit_def isWhiteSpace_def)
  have slot: "normalizeSessionSlot toLowerCaseAscii (Some (lit '' Team-A '')) = lit ''team-a''"
    by (simp add: normalizeSessionSlot_def toLowerCaseAscii_def trim_def lit_def
        isWhiteSpace_def)
  have before: "storeGet toLowerCaseAscii exampleBoundStore (lit '' Team-A '')
      = Some (lit ''Project Beta'')"
    by (simp add: storeGet_def slot exampleBoundStore_def)
  note t = set_blank_id_deletes [OF toLowerCaseAscii_laws blank, where env = exampleEnv
      and st = exampleBoundStore and dk = Map.empty and slot = "lit '' Team-A ''"
      and c = "[]" and filePath = "[]" and ?dk0.0 = Map.empty and ops = "[]"]
  have after: "sbBindings
       (fst (storeSet toLowerCaseAscii exampleEnv (exampleBoundStore, Map.empty)
          (lit '' Team-A '') (lit ''   ''))) = []"
    using t [THEN conjunct1] by (simp add: slot exampleBoundStore_def)
  from before t [THEN conjunct2, THEN conjunct1] after show ?thesis by blast
qed

section \<open>The token bucket\<close>

















section \<open>Reopening the session binding store\<close>

lemmas store_defs = storeSet_def storeDelete_def storeGet_def storeLoad_def newStore_def
  persistToDisk_def persistOps_def tmpPathOf_def serializeBindings_def parseBindingsFile_def
  objectEntries_def plainObjectAssign_def normalizeSessionSlot_def normalizeConversationId_def
  isArrayIndex_def decimalValue_def isDigit_def

text \<open>
  C8 at the slot \<open>__proto__\<close>: after \<open>set\<close> the store answers \<open>get\<close> with the
  conversation id and the bindings file holds the binding, but a new store that loads the
  file answers \<open>get\<close> with nothing.
\<close>

theorem proto_slot_lost_on_reload:
  "storeGet toLowerCaseAscii
     (fst (storeSet toLowerCaseAscii exampleEnv
        (newStore (lit ''/state/session-bindings.json''), Map.empty)
        (lit ''__proto__'') (lit ''Project Alpha'')))
     (lit ''__proto__'') = Some (lit ''Project Alpha'')
   \<and> snd (storeSet toLowerCaseAscii exampleEnv
        (newStore (lit ''/state/session-bindings.json''), Map.empty)
        (lit ''__proto__'') (lit ''Project Alpha''))
       (lit ''/state/session-bindings.json'')
     = Some (serializeBindings [(lit ''__proto__'', lit ''Project Alpha'')])
   \<and> storeGet toLowerCaseAscii
     (storeLoad toLowerCaseAscii (newStore (lit ''/state/session-bindings.json''))
        (snd (storeSet toLowerCaseAscii exampleEnv
           (newStore (lit ''/state/session-bindings.json''), Map.empty)
           (lit ''__proto__'') (lit ''Project Alpha''))))
     (lit ''__proto__'') = None"
  by (simp add: store_defs exampleEnv_def toLowerCaseAscii_def trim_def isWhiteSpace_def lit_def
      showNat.simps Let_def)

text \<open>The same steps at the slot \<open>" Team-A "\<close> return the conversation id.\<close>

lemma team_slot_survives_reload:
  "storeGet toLowerCaseAscii
     (storeLoad toLowerCaseAscii (newStore (lit ''/state/session-bindings.json''))
        (snd (storeSet toLowerCaseAscii exampleEnv
           (newStore (lit ''/state/session-bindings.json''), Map.empty)
           (lit '' Team-A '') (lit ''Project Beta ''))))
     (lit ''team-a'') = Some (lit ''Project Beta'')"
  by (simp add: store_defs exampleEnv_def toLowerCaseAscii_def trim_def isWhiteSpace_def lit_def
      showNat.simps Let_def)

end
